theory Spec2Isabelle
  imports Complex_Main
begin

section \<open>Python values\<close>

text \<open>
  The values the program stores in dictionaries and in the untyped enrichment fields of a
  node: \<open>None\<close>, booleans, integers, strings, lists and dictionaries with string keys.
  A dictionary is an association list in insertion order; a lookup finds the first
  entry of a key.  Floating-point numbers are outside this model.
\<close>

datatype pyval =
    PNone
  | PBool bool
  | PInt int
  | PStr string
  | PList "pyval list"
  | PDict "(string \<times> pyval) list"

type_synonym pydict = "(string \<times> pyval) list"

text \<open>Python's truth value of an object, as \<open>if x:\<close> tests it.\<close>

fun truthy :: "pyval \<Rightarrow> bool" where
  "truthy PNone = False"
| "truthy (PBool b) = b"
| "truthy (PInt i) = (i \<noteq> 0)"
| "truthy (PStr s) = (s \<noteq> [])"
| "truthy (PList xs) = (xs \<noteq> [])"
| "truthy (PDict kvs) = (kvs \<noteq> [])"

text \<open>\<open>d.get(k)\<close>: the value stored under \<open>k\<close>, or \<open>None\<close>.\<close>

definition dict_get :: "pydict \<Rightarrow> string \<Rightarrow> pyval" where
  "dict_get d k = (case map_of d k of None \<Rightarrow> PNone | Some v \<Rightarrow> v)"


section \<open>Sandbox configuration (e2b_sandbox/sandbox_config.py)\<close>

datatype SandboxMode = EXPLORATION | RENDERING | INTERACTIVE | BATCH

fun mode_value :: "SandboxMode \<Rightarrow> string" where
  "mode_value EXPLORATION = ''exploration''"
| "mode_value RENDERING = ''rendering''"
| "mode_value INTERACTIVE = ''interactive''"
| "mode_value BATCH = ''batch''"

record SandboxConfig =
  moonshot_api_key :: string
  moonshot_base_url :: string
  model :: string
  thinking_mode :: string
  use_tools :: bool
  mode :: SandboxMode
  max_depth :: int
  max_tokens :: int
  temperature :: real
  output_dir :: string
  media_dir :: string
  log_dir :: string
  manim_quality :: string
  manim_format :: string
  max_render_time :: int
  max_tree_depth :: int
  max_narrative_words :: int

text \<open>The dataclass's defaults, for a given API key.\<close>

definition default_config :: "string \<Rightarrow> SandboxConfig" where
  "default_config key =
     \<lparr> moonshot_api_key = key,
       moonshot_base_url = ''https://api.moonshot.ai/v1'',
       model = ''kimi-k2-0905-preview'',
       thinking_mode = ''heavy'',
       use_tools = True,
       mode = EXPLORATION,
       max_depth = 3,
       max_tokens = 8000,
       temperature = 7 / 10,
       output_dir = ''/home/user/kimik2/output'',
       media_dir = ''/home/user/kimik2/media'',
       log_dir = ''/home/user/kimik2/logs'',
       manim_quality = ''l'',
       manim_format = ''mp4'',
       max_render_time = 300,
       max_tree_depth = 5,
       max_narrative_words = 3000 \<rparr>"

text \<open>\<open>SandboxConfig.to_dict\<close>: nine entries, the key masked.\<close>

definition to_dict :: "SandboxConfig \<Rightarrow> pydict" where
  "to_dict self =
     [ (''moonshot_api_key'', if moonshot_api_key self \<noteq> [] then PStr ''***'' else PNone),
       (''moonshot_base_url'', PStr (moonshot_base_url self)),
       (''model'', PStr (model self)),
       (''thinking_mode'', PStr (thinking_mode self)),
       (''use_tools'', PBool (use_tools self)),
       (''mode'', PStr (mode_value (mode self))),
       (''max_depth'', PInt (max_depth self)),
       (''max_tokens'', PInt (max_tokens self)),
       (''manim_quality'', PStr (manim_quality self)) ]"

text \<open>
  The four \<open>ValueError\<close>s of \<open>validate_sandbox_config\<close>, each with the value its
  message prints.
\<close>

datatype ValueError =
    ApiKeyRequired
  | InvalidThinkingMode string
  | InvalidManimQuality string
  | MaxDepthOutOfRange int

text \<open>
  \<open>validate_sandbox_config\<close> takes the configuration object by reference; the model
  returns the object next to the result, as the function leaves it.  The four checks run
  in the source's order, and the first that fails raises.
\<close>

definition validate_sandbox_config :: "SandboxConfig \<Rightarrow> (ValueError + bool) \<times> SandboxConfig" where
  "validate_sandbox_config config =
     (if moonshot_api_key config = [] then (Inl ApiKeyRequired, config)
      else if thinking_mode config \<notin> set [''heavy'', ''medium'', ''light'', ''true'', ''false'']
        then (Inl (InvalidThinkingMode (thinking_mode config)), config)
      else if manim_quality config \<notin> set [''l'', ''m'', ''h'', ''k'']
        then (Inl (InvalidManimQuality (manim_quality config)), config)
      else if max_depth config < 1 \<or> max_depth config > 10
        then (Inl (MaxDepthOutOfRange (max_depth config)), config)
      else (Inr True, config))"

definition config_valid :: "SandboxConfig \<Rightarrow> bool" where
  "config_valid config =
     (moonshot_api_key config \<noteq> []
      \<and> thinking_mode config \<in> {''heavy'', ''medium'', ''light'', ''true'', ''false''}
      \<and> manim_quality config \<in> {''l'', ''m'', ''h'', ''k''}
      \<and> 1 \<le> max_depth config \<and> max_depth config \<le> 10)"


section \<open>Knowledge trees and their dictionaries\<close>

text \<open>
  A node of the prerequisite tree, as the loaders construct it: \<open>concept\<close>, \<open>depth\<close>,
  \<open>is_foundation\<close> and \<open>prerequisites\<close>, and the four enrichment fields, which hold any
  Python value and are \<open>None\<close> until a stage fills them.
\<close>

datatype KnowledgeNode = KnowledgeNode
  (concept: string)
  (depth: int)
  (is_foundation: bool)
  (prerequisites: "KnowledgeNode list")
  (equations: pyval)
  (definitions: pyval)
  (visual_spec: pyval)
  (narrative: pyval)

text \<open>
  \<open>InteractiveExplorer._serialize_tree(node, depth=0)\<close>
  (e2b_sandbox/interactive_explorer.py): four entries always, then one entry for each
  enrichment field whose value is true under \<open>if node.field:\<close>.  The list of
  prerequisites is filled after the enrichments are added, in the entry created first.
\<close>

fun serialize_tree :: "KnowledgeNode \<Rightarrow> int \<Rightarrow> pydict" where
  "serialize_tree (KnowledgeNode c k f ps eqs defs vis nar) depth' =
     [ (''concept'', PStr c),
       (''depth'', PInt k),
       (''is_foundation'', PBool f),
       (''prerequisites'',
          PList (map (\<lambda>prereq. PDict (serialize_tree prereq (depth' + 1))) ps)) ]
     @ (if truthy eqs then [(''equations'', eqs)] else [])
     @ (if truthy defs then [(''definitions'', defs)] else [])
     @ (if truthy vis then [(''visual_spec'', vis)] else [])
     @ (if truthy nar then [(''narrative'', nar)] else [])"

text \<open>
  \<open>_dict_to_node\<close> (test_pipeline_simple.py): \<open>d["concept"]\<close>, \<open>d["depth"]\<close> and
  \<open>d["is_foundation"]\<close> raise \<open>KeyError\<close> on a missing key, in this order; then the
  prerequisites are loaded from \<open>d.get("prerequisites", [])\<close>, and iterating a value
  that is no list of dictionaries raises \<open>TypeError\<close> (an empty string or dictionary
  iterates as the empty list); the enrichments are \<open>d.get(...)\<close>.  The node's first
  three fields are typed here, so a dictionary holding another kind of value under them is
  reported as \<open>TypeError\<close>, where Python would store the value unchecked.
\<close>

datatype load_error = KeyError string | TypeError

lemma map_of_size:
  "map_of d k = Some v \<Longrightarrow> size v < Suc (size_list (size_prod (\<lambda>_. 0) size) d)"
  by (induction d) (auto split: if_splits)

function dict_to_node :: "pydict \<Rightarrow> load_error + KnowledgeNode"
  and dicts_to_nodes :: "pyval list \<Rightarrow> load_error + KnowledgeNode list" where
  "dict_to_node d =
     (case map_of d ''concept'' of
        None \<Rightarrow> Inl (KeyError ''concept'')
      | Some cv \<Rightarrow>
     (case map_of d ''depth'' of
        None \<Rightarrow> Inl (KeyError ''depth'')
      | Some kv \<Rightarrow>
     (case map_of d ''is_foundation'' of
        None \<Rightarrow> Inl (KeyError ''is_foundation'')
      | Some fv \<Rightarrow>
     (case (case map_of d ''prerequisites'' of
              None \<Rightarrow> Inr []
            | Some (PList ps) \<Rightarrow> dicts_to_nodes ps
            | Some (PStr s) \<Rightarrow> if s = [] then Inr [] else Inl TypeError
            | Some (PDict kvs) \<Rightarrow> if kvs = [] then Inr [] else Inl TypeError
            | Some _ \<Rightarrow> Inl TypeError) of
        Inl e \<Rightarrow> Inl e
      | Inr nodes \<Rightarrow>
     (case (cv, kv, fv) of
        (PStr c, PInt k, PBool f) \<Rightarrow>
          Inr (KnowledgeNode c k f nodes
                 (dict_get d ''equations'') (dict_get d ''definitions'')
                 (dict_get d ''visual_spec'') (dict_get d ''narrative''))
      | _ \<Rightarrow> Inl TypeError)))))"
| "dicts_to_nodes [] = Inr []"
| "dicts_to_nodes (p # rest) =
     (case p of
        PDict d \<Rightarrow>
          (case dict_to_node d of
             Inl e \<Rightarrow> Inl e
           | Inr node \<Rightarrow>
               (case dicts_to_nodes rest of
                  Inl e \<Rightarrow> Inl e
                | Inr nodes \<Rightarrow> Inr (node # nodes)))
      | _ \<Rightarrow> Inl TypeError)"
  by pat_completeness auto
termination
  apply (relation "measure (\<lambda>x. case x of Inl d \<Rightarrow> size (PDict d) | Inr ps \<Rightarrow> size (PList ps))")
    apply (auto dest: map_of_size)
  done

declare dict_to_node.simps [simp del]

text \<open>
  What a reload keeps of a value: the value itself when it is true, \<open>None\<close> otherwise;
  and the tree a reload gives back.
\<close>

definition kept :: "pyval \<Rightarrow> pyval" where
  "kept v = (if truthy v then v else PNone)"

fun reloaded :: "KnowledgeNode \<Rightarrow> KnowledgeNode" where
  "reloaded (KnowledgeNode c k f ps eqs defs vis nar) =
     KnowledgeNode c k f (map reloaded ps) (kept eqs) (kept defs) (kept vis) (kept nar)"

text \<open>Every enrichment field of the tree is \<open>None\<close> or a true value.\<close>

fun enrichments_kept :: "KnowledgeNode \<Rightarrow> bool" where
  "enrichments_kept (KnowledgeNode c k f ps eqs defs vis nar) =
     ((eqs = PNone \<or> truthy eqs) \<and> (defs = PNone \<or> truthy defs)
      \<and> (vis = PNone \<or> truthy vis) \<and> (nar = PNone \<or> truthy nar)
      \<and> list_all enrichments_kept ps)"

text \<open>A foundational leaf whose list of equations is present and empty.\<close>

definition bare_leaf :: KnowledgeNode where
  "bare_leaf = KnowledgeNode ''X'' 0 True [] (PList []) PNone PNone PNone"

text \<open>An enriched tree of two nodes.\<close>

definition enriched_pair :: KnowledgeNode where
  "enriched_pair =
     KnowledgeNode ''X'' 0 False
       [KnowledgeNode ''A'' 1 True [] (PList [PStr ''a = b'']) PNone PNone PNone]
       PNone (PList [PStr ''X is ...''])
       (PDict [(''color_scheme'', PStr ''gold''), (''duration'', PInt 12)])
       (PStr ''Once upon a time'')"

text \<open>The nodes of a tree, the root first, and their concepts.\<close>

fun all_nodes :: "KnowledgeNode \<Rightarrow> KnowledgeNode list" where
  "all_nodes (KnowledgeNode c d f ps eqs defs vis nar) =
     KnowledgeNode c d f ps eqs defs vis nar # concat (map all_nodes ps)"

definition concepts :: "KnowledgeNode \<Rightarrow> string list" where
  "concepts n = map concept (all_nodes n)"

text \<open>A property of single nodes holds at every node of a tree.\<close>

fun every_node :: "(KnowledgeNode \<Rightarrow> bool) \<Rightarrow> KnowledgeNode \<Rightarrow> bool" where
  "every_node P (KnowledgeNode c d f ps eqs defs vis nar) =
     (P (KnowledgeNode c d f ps eqs defs vis nar) \<and> list_all (every_node P) ps)"

text \<open>A foundational node has no prerequisites.\<close>

definition foundation_is_leaf :: "KnowledgeNode \<Rightarrow> bool" where
  "foundation_is_leaf n = (is_foundation n \<longrightarrow> prerequisites n = [])"


section \<open>The 3D visual design stage (MinimalSurfaces/run_pipeline.py)\<close>

text \<open>
  An exception that leaves a call: \<open>KeyboardInterrupt\<close>, or an \<open>Exception\<close> with the
  name of its class.
\<close>

datatype exc = KeyboardInterrupt | Exception string

text \<open>
  \<open>d[k] = v\<close> and \<open>d.update(u)\<close> on a dictionary in insertion order: a key that is
  present keeps its place and takes the new value, a new key goes to the end.
\<close>

fun dict_set :: "pydict \<Rightarrow> string \<Rightarrow> pyval \<Rightarrow> pydict" where
  "dict_set [] k v = [(k, v)]"
| "dict_set ((k', v') # d) k v = (if k' = k then (k, v) # d else (k', v') # dict_set d k v)"

fun dict_update :: "pydict \<Rightarrow> pydict \<Rightarrow> pydict" where
  "dict_update d [] = d"
| "dict_update d ((k, v) # u) = dict_update (dict_set d k v) u"

text \<open>\<open>d.get(k, default)\<close>.\<close>

definition dict_get_default :: "pydict \<Rightarrow> string \<Rightarrow> pyval \<Rightarrow> pyval" where
  "dict_get_default d k dflt = (case map_of d k of None \<Rightarrow> dflt | Some v \<Rightarrow> v)"

text \<open>
  The values \<open>three_d_design_node\<close> interpolates into the user prompt: the node's concept,
  depth and foundational flag, \<open>node.equations or 'None provided'\<close>, the concepts of the
  prerequisites, and the parent's specification that the lines on the previous visual are
  taken from (none at the root).
\<close>

record 'v prompt =
  pr_concept :: string
  pr_depth :: int
  pr_is_foundation :: bool
  pr_equations :: pyval
  pr_prerequisites :: "string list"
  pr_previous :: "'v option"

text \<open>
  What \<open>three_d_design_node\<close> calls and this repository's sources do not contain, taken as
  parameters: the client's \<open>chat_completion\<close> (which may raise) and \<open>get_text_content\<close>,
  the helpers \<open>_extract_tool_payload\<close> and \<open>_parse_json_fallback\<close> of
  \<open>agents.enrichment_chain\<close> (each gives a payload or \<open>None\<close>), and \<open>VisualSpec\<close>,
  a type \<open>'v\<close> with \<open>VisualSpec.from_payload\<close> and \<open>to_dict\<close>.  \<open>'r\<close> is the type
  of a response.  Only \<open>chat_completion\<close> is taken to raise; the others return for
  every argument.
\<close>

record ('r, 'v) visual_designer =
  chat_completion :: "'v prompt \<Rightarrow> exc + 'r"
  get_text_content :: "'r \<Rightarrow> string"
  extract_tool_payload :: "'r \<Rightarrow> pydict option"
  parse_json_fallback :: "string \<Rightarrow> pydict option"
  from_payload :: "string \<Rightarrow> pydict \<Rightarrow> 'v"
  spec_to_dict :: "'v \<Rightarrow> pydict"

definition user_prompt :: "KnowledgeNode \<Rightarrow> 'v option \<Rightarrow> 'v prompt" where
  "user_prompt node parent_spec =
     \<lparr> pr_concept = concept node,
       pr_depth = depth node,
       pr_is_foundation = is_foundation node,
       pr_equations = (if truthy (equations node) then equations node else PStr ''None provided''),
       pr_prerequisites = map concept (prerequisites node),
       pr_previous = parent_spec \<rparr>"

text \<open>
  \<open>x[:150]\<close> succeeds on a string and on a list; on \<open>None\<close>, a number or a
  dictionary it raises.  The function slices \<open>payload.get('visual_description', '')\<close>
  and \<open>payload.get('animation_description', 'N/A')\<close> for its log lines.
\<close>

definition sliceable :: "pyval \<Rightarrow> bool" where
  "sliceable v = (case v of PStr _ \<Rightarrow> True | PList _ \<Rightarrow> True | _ \<Rightarrow> False)"

text \<open>
  \<open>if node.visual_spec is None: node.visual_spec = {}\<close>, then
  \<open>node.visual_spec.update(entries)\<close>: a field that holds neither \<open>None\<close> nor a
  dictionary has no \<open>update\<close>.
\<close>

definition update_visual_spec :: "pyval \<Rightarrow> pydict \<Rightarrow> exc + pyval" where
  "update_visual_spec cur entries =
     (case cur of
        PNone \<Rightarrow> Inr (PDict (dict_update [] entries))
      | PDict d \<Rightarrow> Inr (PDict (dict_update d entries))
      | _ \<Rightarrow> Inl (Exception ''AttributeError''))"

text \<open>
  \<open>three_d_design_node(self, node, parent_spec)\<close>, which replaces the designer's
  \<open>_design_node\<close>, so that the calls on the prerequisites come back to it.  The node is
  changed in place and \<open>self.cache\<close> is updated, and what has been changed stays changed
  when an exception leaves the call: the model returns the node and the cache as the call
  leaves them, together with the specification the call returns or the exception it
  raises.  An exception of \<open>chat_completion\<close>, of a slice or of \<open>update\<close> is not
  caught in the function; each of them is raised before the node is assigned to.  An
  exception from a prerequisite leaves the node with the field it has been given.  A
  fallback that gives \<open>None\<close> or the empty dictionary is replaced by \<open>{}\<close>
  (\<open>... or {}\<close>).  \<open>design_prerequisites\<close> is the loop
  \<open>for prereq in node.prerequisites: await self._design_node(prereq, spec)\<close>: it
  returns the prerequisites and the cache as it leaves them, and the exception that ended
  it, if one did; the prerequisites after the one that raised are not reached.
\<close>

fun three_d_design_node ::
    "('r, 'v) visual_designer \<Rightarrow> KnowledgeNode \<Rightarrow> 'v option \<Rightarrow> (string \<rightharpoonup> 'v)
       \<Rightarrow> (KnowledgeNode \<times> (string \<rightharpoonup> 'v)) \<times> (exc + 'v)"
  and design_prerequisites ::
    "('r, 'v) visual_designer \<Rightarrow> KnowledgeNode list \<Rightarrow> 'v \<Rightarrow> (string \<rightharpoonup> 'v)
       \<Rightarrow> (KnowledgeNode list \<times> (string \<rightharpoonup> 'v)) \<times> exc option" where
  "three_d_design_node self (KnowledgeNode c k f ps eqs defs vis nar) parent_spec cache =
     (case cache c of
        Some cached_spec \<Rightarrow>
          (case update_visual_spec vis (spec_to_dict self cached_spec) of
             Inl e \<Rightarrow> ((KnowledgeNode c k f ps eqs defs vis nar, cache), Inl e)
           | Inr vis' \<Rightarrow>
               (case design_prerequisites self ps cached_spec cache of
                  ((ps', cache'), raised) \<Rightarrow>
                    ((KnowledgeNode c k f ps' eqs defs vis' nar, cache'),
                     (case raised of Some e \<Rightarrow> Inl e | None \<Rightarrow> Inr cached_spec))))
      | None \<Rightarrow>
          (case chat_completion self
                  (user_prompt (KnowledgeNode c k f ps eqs defs vis nar) parent_spec) of
             Inl e \<Rightarrow> ((KnowledgeNode c k f ps eqs defs vis nar, cache), Inl e)
           | Inr response \<Rightarrow>
               (let payload =
                  (case extract_tool_payload self response of
                     Some p \<Rightarrow> p
                   | None \<Rightarrow>
                       (case parse_json_fallback self (get_text_content self response) of
                          None \<Rightarrow> []
                        | Some p \<Rightarrow> p))
                in if \<not> sliceable (dict_get_default payload ''visual_description'' (PStr ''''))
                   then ((KnowledgeNode c k f ps eqs defs vis nar, cache),
                         Inl (Exception ''TypeError''))
                   else if \<not> sliceable
                             (dict_get_default payload ''animation_description'' (PStr ''N/A''))
                   then ((KnowledgeNode c k f ps eqs defs vis nar, cache),
                         Inl (Exception ''TypeError''))
                   else
                     (let spec = from_payload self c payload in
                      case update_visual_spec vis (spec_to_dict self spec) of
                        Inl e \<Rightarrow> ((KnowledgeNode c k f ps eqs defs vis nar, cache), Inl e)
                      | Inr vis' \<Rightarrow>
                          (case design_prerequisites self ps spec (cache(c \<mapsto> spec)) of
                             ((ps', cache'), raised) \<Rightarrow>
                               ((KnowledgeNode c k f ps' eqs defs vis' nar, cache'),
                                (case raised of Some e \<Rightarrow> Inl e | None \<Rightarrow> Inr spec)))))))"
| "design_prerequisites self [] spec cache = (([], cache), None)"
| "design_prerequisites self (prereq # rest) spec cache =
     (case three_d_design_node self prereq (Some spec) cache of
        ((prereq', cache'), Inl e) \<Rightarrow> ((prereq' # rest, cache'), Some e)
      | ((prereq', cache'), Inr _) \<Rightarrow>
          (case design_prerequisites self rest spec cache' of
             ((rest', cache''), raised) \<Rightarrow> ((prereq' # rest', cache''), raised)))"



text \<open>
  A designer whose service answers every prompt with a sentence that holds no payload;
  its specification is the payload with the concept in front.
\<close>

definition garbled_designer :: "(string, pydict) visual_designer" where
  "garbled_designer =
     \<lparr> chat_completion = (\<lambda>_. Inr ''I cannot help with that''),
       get_text_content = (\<lambda>r. r),
       extract_tool_payload = (\<lambda>_. None),
       parse_json_fallback = (\<lambda>_. None),
       from_payload = (\<lambda>c p. (''concept'', PStr c) # p),
       spec_to_dict = (\<lambda>v. v) \<rparr>"

text \<open>A tree of two nodes before any enrichment.\<close>

definition plain_pair :: KnowledgeNode where
  "plain_pair =
     KnowledgeNode ''X'' 0 False
       [KnowledgeNode ''A'' 1 True [] PNone PNone PNone PNone] PNone PNone PNone PNone"




section \<open>The pipeline script (run_pipeline.py)\<close>























section \<open>The Explorer\<close>

text \<open>
  The explorer, \<open>agents.prerequisite_explorer_kimi\<close>, is not among the sources; only its
  callers are.  This section models it from the specification's description of the
  algorithm, of the memo and of the failure policy.
\<close>

text \<open>
  Modelled from the spec: the outcome of one request to the reasoning service, which is
  not among the sources.  The call raises, or its content cannot be parsed, or it is parsed
  into an answer.
\<close>

datatype 'a reply = Raises | Unparseable | Parsed 'a

text \<open>
  Modelled from the spec: the reasoning service, which is not among the sources, as the
  explorer consults it: "is this concept foundational?" and "list the direct
  prerequisites", each answered per concept.
\<close>

record service =
  is_foundational :: "string \<Rightarrow> bool reply"
  list_prerequisites :: "string \<Rightarrow> string list reply"

text \<open>
  Modelled from the spec: the two kinds of request the explorer (not among the sources)
  issues, with the concept asked about.
\<close>

datatype request = IsFoundational string | ListPrerequisites string

text \<open>
  Modelled from the spec: the state of one exploration run of the explorer (not among the
  sources): the memo from a concept to its already-built node, and the requests issued
  so far, oldest first.
\<close>

record explorer_state =
  memo :: "string \<rightharpoonup> KnowledgeNode"
  requests :: "request list"

text \<open>Modelled from the spec: the explorer (not among the sources) issues a request.\<close>

definition ask :: "request \<Rightarrow> explorer_state \<Rightarrow> explorer_state" where
  "ask r st = st\<lparr>requests := requests st @ [r]\<rparr>"

text \<open>
  Modelled from the spec: the explorer (not among the sources) stores a node it has built
  in the memo, under the node's concept.
\<close>

definition remember :: "KnowledgeNode \<Rightarrow> explorer_state \<Rightarrow> explorer_state" where
  "remember node st = st\<lparr>memo := (memo st)(concept node \<mapsto> node)\<rparr>"

text \<open>
  Modelled from the spec: the node the explorer (not among the sources) builds when it
  marks a concept foundational and stops: no prerequisites, no enrichment yet.
\<close>

definition foundation_leaf :: "string \<Rightarrow> int \<Rightarrow> KnowledgeNode" where
  "foundation_leaf c d = KnowledgeNode c d True [] PNone PNone PNone PNone"

text \<open>
  Modelled from the spec: the explorer's recursion, \<open>explore_async\<close> of
  \<open>KimiPrerequisiteExplorer\<close>, which is not among the sources.  The memo is consulted
  first, and a hit returns the stored node with no request.  Otherwise one request asks
  whether the concept is foundational; when the service answers yes, or the depth has
  reached the maximum, or the call fails or cannot be parsed, the node is foundational.
  Otherwise a second request lists the prerequisites, each of which is explored at the next
  depth, in the order given; when that call fails or cannot be parsed the node is
  foundational.  Every node built is stored in the memo once it is complete.  The
  specification's test \<open>depth == max_depth\<close> is written \<open>max_depth \<le> depth\<close>: from the
  root's depth 0 and a bound that is not negative the two agree at every node reached, and
  the recursion ends for every argument.
\<close>

function explore ::
    "service \<Rightarrow> int \<Rightarrow> string \<Rightarrow> int \<Rightarrow> explorer_state \<Rightarrow> KnowledgeNode \<times> explorer_state"
  and explore_each ::
    "service \<Rightarrow> int \<Rightarrow> string list \<Rightarrow> int \<Rightarrow> explorer_state
       \<Rightarrow> KnowledgeNode list \<times> explorer_state" where
  "explore svc max_depth' c d st =
     (case memo st c of
        Some node \<Rightarrow> (node, st)
      | None \<Rightarrow>
          (let st1 = ask (IsFoundational c) st in
           case is_foundational svc c of
             Parsed False \<Rightarrow>
               if max_depth' \<le> d then (foundation_leaf c d, remember (foundation_leaf c d) st1)
               else
                 (let st2 = ask (ListPrerequisites c) st1 in
                  case list_prerequisites svc c of
                    Parsed ps \<Rightarrow>
                      (case explore_each svc max_depth' ps (d + 1) st2 of
                         (nodes, st3) \<Rightarrow>
                           (let node = KnowledgeNode c d False nodes PNone PNone PNone PNone
                            in (node, remember node st3)))
                  | _ \<Rightarrow> (foundation_leaf c d, remember (foundation_leaf c d) st2))
           | _ \<Rightarrow> (foundation_leaf c d, remember (foundation_leaf c d) st1)))"
| "explore_each svc max_depth' [] d st = ([], st)"
| "explore_each svc max_depth' (p # ps) d st =
     (case explore svc max_depth' p d st of
        (node, st1) \<Rightarrow>
          (case explore_each svc max_depth' ps d st1 of
             (nodes, st2) \<Rightarrow> (node # nodes, st2)))"
  by pat_completeness auto
termination
  by (relation "measures
        [\<lambda>x. case x of Inl (svc, m, c, d, st) \<Rightarrow> nat (m - d)
                      | Inr (svc, m, ps, d, st) \<Rightarrow> nat (m - d),
         \<lambda>x. case x of Inl _ \<Rightarrow> 0 | Inr (svc, m, ps, d, st) \<Rightarrow> Suc (length ps)]")
     auto

declare explore.simps [simp del]

text \<open>
  Modelled from the spec: the state in which a run of the explorer (not among the sources)
  starts: an empty memo, owned by the run, and no request issued.
\<close>

definition init_state :: explorer_state where
  "init_state = \<lparr> memo = Map.empty, requests = [] \<rparr>"

text \<open>
  Modelled from the spec: one exploration run of the explorer (not among the sources), from
  the root concept at depth 0.
\<close>

definition explore_run :: "service \<Rightarrow> int \<Rightarrow> string \<Rightarrow> KnowledgeNode \<times> explorer_state" where
  "explore_run svc max_depth' c = explore svc max_depth' c 0 init_state"


text \<open>
  Properties of the single nodes of an explored tree: the depth is capped; and the node
  is foundational exactly when the service did not answer "not foundational", or the depth
  has reached the bound, or the list of prerequisites was not parsed, it then has no
  prerequisites, and otherwise it has one node for each prerequisite listed, in order.
\<close>

definition depth_capped :: "int \<Rightarrow> KnowledgeNode \<Rightarrow> bool" where
  "depth_capped m n =
     (depth n \<le> m \<and> (depth n = m \<longrightarrow> is_foundation n \<and> prerequisites n = []))"


text \<open>
  Invariants of a run's state: every node in the memo is stored under its own concept and
  satisfies \<open>I\<close>; every concept of a stored tree is itself in the memo, and every
  concept in the memo has been asked about; one state extends another.
\<close>

definition memo_all :: "(KnowledgeNode \<Rightarrow> bool) \<Rightarrow> explorer_state \<Rightarrow> bool" where
  "memo_all I st = (\<forall>x n. memo st x = Some n \<longrightarrow> concept n = x \<and> I n)"


definition grows :: "explorer_state \<Rightarrow> explorer_state \<Rightarrow> bool" where
  "grows st st' = (dom (memo st) \<subseteq> dom (memo st') \<and> set (requests st) \<subseteq> set (requests st'))"

text \<open>
  A service for the examples: \<open>X\<close> needs \<open>A\<close>, \<open>B\<close> and \<open>C\<close>; \<open>B\<close> needs \<open>A\<close>
  and \<open>D\<close>; \<open>A\<close> is foundational; the checks of \<open>C\<close> and \<open>D\<close> raise.
\<close>

definition study_service :: service where
  "study_service =
     \<lparr> is_foundational =
         (\<lambda>c. if c = ''X'' \<or> c = ''B'' then Parsed False
               else if c = ''A'' then Parsed True else Raises),
       list_prerequisites =
         (\<lambda>c. if c = ''X'' then Parsed [''A'', ''B'', ''C'']
               else if c = ''B'' then Parsed [''A'', ''D''] else Unparseable) \<rparr>"

definition study_tree :: KnowledgeNode where
  "study_tree =
     KnowledgeNode ''X'' 0 False
       [KnowledgeNode ''A'' 1 True [] PNone PNone PNone PNone,
        KnowledgeNode ''B'' 1 False
          [KnowledgeNode ''A'' 1 True [] PNone PNone PNone PNone,
           KnowledgeNode ''D'' 2 True [] PNone PNone PNone PNone]
          PNone PNone PNone PNone,
        KnowledgeNode ''C'' 1 True [] PNone PNone PNone PNone]
       PNone PNone PNone PNone"



section \<open>Theorems: sandbox configuration\<close>

text \<open>
  C9.  \<open>validate_sandbox_config\<close> returns \<open>True\<close> exactly when the API key is non-empty,
  the thinking mode is one of heavy, medium, light, true, false, the Manim quality is one
  of l, m, h, k, and the maximum depth lies between 1 and 10; on every other configuration
  it raises a \<open>ValueError\<close>; and in all cases the configuration is left as it was.
\<close>

theorem validate_sandbox_config_exact:
  "(fst (validate_sandbox_config config) = Inr True) = config_valid config
   \<and> (config_valid config \<or> (\<exists>e. fst (validate_sandbox_config config) = Inl e))
   \<and> snd (validate_sandbox_config config) = config"
  by (auto simp: validate_sandbox_config_def config_valid_def)

theorem validate_sandbox_config_exact_witness:
  "fst (validate_sandbox_config (default_config ''sk-alpha'')) = Inr True
   \<and> fst (validate_sandbox_config ((default_config ''sk-alpha'')\<lparr>max_depth := 11\<rparr>))
       = Inl (MaxDepthOutOfRange 11)
   \<and> snd (validate_sandbox_config ((default_config ''sk-alpha'')\<lparr>max_depth := 11\<rparr>))
       = (default_config ''sk-alpha'')\<lparr>max_depth := 11\<rparr>"
  using validate_sandbox_config_exact [of "default_config ''sk-alpha''"]
    validate_sandbox_config_exact [of "(default_config ''sk-alpha'')\<lparr>max_depth := 11\<rparr>"]
  by (simp add: default_config_def config_valid_def validate_sandbox_config_def)

text \<open>
  C10.  \<open>SandboxConfig.to_dict\<close> does not depend on the API key beyond whether it is
  empty: two configurations that differ only in the key, both keys empty or both
  non-empty, have the same dictionary, and the entry of the key is the constant \<open>***\<close>
  for a non-empty key and \<open>None\<close> for the empty one.
\<close>

theorem to_dict_masks_api_key:
  "((k1 = []) = (k2 = []) \<longrightarrow>
      to_dict (config\<lparr>moonshot_api_key := k1\<rparr>) = to_dict (config\<lparr>moonshot_api_key := k2\<rparr>))
   \<and> map_of (to_dict config) ''moonshot_api_key''
       = Some (if moonshot_api_key config \<noteq> [] then PStr ''***'' else PNone)"
  by (simp add: to_dict_def)

theorem to_dict_masks_api_key_witness:
  "(''sk-alpha'' = []) = (''sk-beta-2'' = [])
   \<and> to_dict ((default_config '''')\<lparr>moonshot_api_key := ''sk-alpha''\<rparr>)
       = to_dict ((default_config '''')\<lparr>moonshot_api_key := ''sk-beta-2''\<rparr>)
   \<and> map_of (to_dict (default_config ''sk-alpha'')) ''moonshot_api_key'' = Some (PStr ''***'')"
  using to_dict_masks_api_key [of "''sk-alpha''" "''sk-beta-2''" "default_config ''''"]
    to_dict_masks_api_key [of "[]" "[]" "default_config ''sk-alpha''"]
  by (simp add: default_config_def)


section \<open>Theorems: serialization\<close>

lemma dicts_to_nodes_map:
  "(\<And>p. p \<in> set ps \<Longrightarrow> dict_to_node (serialize_tree p k) = Inr (g p)) \<Longrightarrow>
   dicts_to_nodes (map (\<lambda>p. PDict (serialize_tree p k)) ps) = Inr (map g ps)"
  by (induction ps) simp_all

lemma dict_to_node_serialize_tree:
  "dict_to_node (serialize_tree node k) = Inr (reloaded node)"
proof (induction node arbitrary: k)
  case (KnowledgeNode c d f ps eqs defs vis nar)
  have "dicts_to_nodes (map (\<lambda>p. PDict (serialize_tree p (k + 1))) ps) = Inr (map reloaded ps)"
    by (rule dicts_to_nodes_map) (rule KnowledgeNode.IH)
  then show ?case
    by (simp add: dict_to_node.simps dict_get_def kept_def)
qed

lemma reloaded_id: "enrichments_kept node \<Longrightarrow> reloaded node = node"
  by (induction node) (auto simp: kept_def list_all_iff intro: map_idI)

text \<open>
  C1 (as amended).  For every tree whose enrichment fields are each \<open>None\<close> or a non-empty
  value, loading the serialized tree gives the tree back: the same concepts, depths,
  foundational flags, prerequisites in the same order, and enrichments.
\<close>

theorem serialize_tree_round_trip:
  "enrichments_kept T \<Longrightarrow> dict_to_node (serialize_tree T 0) = Inr T"
  by (simp add: dict_to_node_serialize_tree reloaded_id)

theorem serialize_tree_round_trip_witness:
  "enrichments_kept enriched_pair
   \<and> dict_to_node (serialize_tree enriched_pair 0) = Inr enriched_pair"
proof -
  have h: "enrichments_kept enriched_pair"
    by (simp add: enriched_pair_def)
  show ?thesis
    using h serialize_tree_round_trip [OF h] by simp
qed

text \<open>
  C1 as stated fails: a leaf whose list of equations is present and empty is loaded back
  with no equations at all.
\<close>

theorem serialize_tree_round_trip_counterexample:
  "dict_to_node (serialize_tree bare_leaf 0)
     = Inr (KnowledgeNode ''X'' 0 True [] PNone PNone PNone PNone)
   \<and> dict_to_node (serialize_tree bare_leaf 0) \<noteq> Inr bare_leaf"
  by (simp add: bare_leaf_def dict_to_node.simps dict_get_def)

text \<open>
  C5 (as amended).  The serialized dictionary of a node always has the keys \<open>concept\<close>,
  \<open>depth\<close>, \<open>is_foundation\<close> and \<open>prerequisites\<close>, in this order, followed by each of
  \<open>equations\<close>, \<open>definitions\<close>, \<open>visual_spec\<close> and \<open>narrative\<close> exactly when the
  field's value is true: \<open>None\<close> and the empty list, dictionary and string are left out.
\<close>

theorem serialize_tree_keys:
  "map fst (serialize_tree node k) =
     [''concept'', ''depth'', ''is_foundation'', ''prerequisites'']
     @ (if truthy (equations node) then [''equations''] else [])
     @ (if truthy (definitions node) then [''definitions''] else [])
     @ (if truthy (visual_spec node) then [''visual_spec''] else [])
     @ (if truthy (narrative node) then [''narrative''] else [])"
  by (cases node) simp

text \<open>
  C5 as stated fails: the equations of this leaf are not \<open>None\<close>, and its dictionary
  has no key \<open>equations\<close>.
\<close>

theorem serialize_tree_keys_counterexample:
  "equations bare_leaf \<noteq> PNone
   \<and> map fst (serialize_tree bare_leaf 0)
       = [''concept'', ''depth'', ''is_foundation'', ''prerequisites'']"
  by (simp add: bare_leaf_def)


section \<open>Theorems: the visual design stage\<close>



text \<open>
  The two ways a call ends: it raises before the node is assigned to, or it assigns the
  field and walks the prerequisites.
\<close>

lemma three_d_design_node_result:
  assumes "three_d_design_node self (KnowledgeNode c k f ps eqs defs vis nar) parent cache
             = ((node', cache'), outcome)"
  shows "(node' = KnowledgeNode c k f ps eqs defs vis nar \<and> cache' = cache
          \<and> (\<exists>e. outcome = Inl e))
       \<or> (\<exists>vis' ps' spec raised.
            update_visual_spec vis (spec_to_dict self spec) = Inr vis'
            \<and> design_prerequisites self ps spec (cache(c \<mapsto> spec)) = ((ps', cache'), raised)
            \<and> node' = KnowledgeNode c k f ps' eqs defs vis' nar
            \<and> outcome = (case raised of Some e \<Rightarrow> Inl e | None \<Rightarrow> Inr spec))"
proof -
  let ?node = "KnowledgeNode c k f ps eqs defs vis nar"
  have walk: ?thesis
    if u: "update_visual_spec vis (spec_to_dict self spec) = Inr vis'"
      and r: "((node', cache'), outcome) =
           (case design_prerequisites self ps spec (cache(c \<mapsto> spec)) of
              ((ps', cache1), raised) \<Rightarrow>
                ((KnowledgeNode c k f ps' eqs defs vis' nar, cache1),
                 (case raised of Some e \<Rightarrow> Inl e | None \<Rightarrow> Inr spec)))"
    for spec vis'
  proof -
    obtain ps' cache1 raised where
      dp: "design_prerequisites self ps spec (cache(c \<mapsto> spec)) = ((ps', cache1), raised)"
      by (metis surj_pair)
    have "node' = KnowledgeNode c k f ps' eqs defs vis' nar" "cache' = cache1"
      "outcome = (case raised of Some e \<Rightarrow> Inl e | None \<Rightarrow> Inr spec)"
      using r dp by simp_all
    then show ?thesis
      using u dp by blast
  qed
  show ?thesis
  proof (cases "cache c")
    case (Some cached_spec)
    show ?thesis
    proof (cases "update_visual_spec vis (spec_to_dict self cached_spec)")
      case (Inl e)
      then show ?thesis
        using assms Some by auto
    next
      case (Inr vis')
      show ?thesis
        by (rule walk [OF Inr]) (use assms Some Inr in \<open>simp add: map_upd_triv\<close>)
    qed
  next
    case None
    show ?thesis
    proof (cases "chat_completion self (user_prompt ?node parent)")
      case (Inl e)
      then show ?thesis
        using assms None by auto
    next
      case (Inr response)
      let ?payload = "case extract_tool_payload self response of
            Some p \<Rightarrow> p
          | None \<Rightarrow> (case parse_json_fallback self (get_text_content self response) of
                       None \<Rightarrow> [] | Some p \<Rightarrow> p)"
      let ?spec = "from_payload self c ?payload"
      have r: "three_d_design_node self ?node parent cache =
          (if \<not> sliceable (dict_get_default ?payload ''visual_description'' (PStr ''''))
              \<or> \<not> sliceable (dict_get_default ?payload ''animation_description'' (PStr ''N/A''))
           then ((?node, cache), Inl (Exception ''TypeError''))
           else (case update_visual_spec vis (spec_to_dict self ?spec) of
                   Inl e \<Rightarrow> ((?node, cache), Inl e)
                 | Inr vis' \<Rightarrow>
                     (case design_prerequisites self ps ?spec (cache(c \<mapsto> ?spec)) of
                        ((ps', cache1), raised) \<Rightarrow>
                          ((KnowledgeNode c k f ps' eqs defs vis' nar, cache1),
                           (case raised of Some e \<Rightarrow> Inl e | None \<Rightarrow> Inr ?spec)))))"
        using None Inr by (simp add: Let_def)
      show ?thesis
      proof (cases "\<not> sliceable (dict_get_default ?payload ''visual_description'' (PStr ''''))
              \<or> \<not> sliceable (dict_get_default ?payload ''animation_description'' (PStr ''N/A''))")
        case True
        then show ?thesis
          using assms r by auto
      next
        case False
        show ?thesis
        proof (cases "update_visual_spec vis (spec_to_dict self ?spec)")
          case (Inl e)
          then show ?thesis
            using assms r False by auto
        next
          case uv: (Inr vis')
          show ?thesis
            by (rule walk [OF uv]) (use assms r False uv in simp)
        qed
      qed
    qed
  qed
qed

lemma design_prerequisites_Cons_result:
  assumes "design_prerequisites self (p # rest) spec cache = ((ps', cache'), raised)"
  shows "\<exists>p' cache1 out1.
           three_d_design_node self p (Some spec) cache = ((p', cache1), out1)
           \<and> ((\<exists>e. out1 = Inl e \<and> ps' = p' # rest \<and> cache' = cache1 \<and> raised = Some e)
              \<or> (\<exists>s rest'. out1 = Inr s
                    \<and> design_prerequisites self rest spec cache1 = ((rest', cache'), raised)
                    \<and> ps' = p' # rest'))"
  using assms by (auto split: sum.splits prod.splits)










section \<open>Theorems: the pipeline script\<close>







section \<open>Theorems: the Explorer\<close>

lemma every_node_all_nodes: "every_node P n = (\<forall>x \<in> set (all_nodes n). P x)"
  by (induction n) (auto simp: list_all_iff)

lemma concept_foundation_leaf [simp]: "concept (foundation_leaf c d) = c"
  by (simp add: foundation_leaf_def)

lemma concepts_leaf [simp]: "concepts (foundation_leaf c d) = [c]"
  by (simp add: concepts_def foundation_leaf_def)

lemma concepts_node [simp]:
  "set (concepts (KnowledgeNode c d f ps eqs defs vis nar))
     = insert c (\<Union>p \<in> set ps. set (concepts p))"
  by (auto simp: concepts_def)

lemma memo_all_ask [simp]: "memo_all I (ask r st) = memo_all I st"
  by (simp add: memo_all_def ask_def)

lemma memo_all_remember: "memo_all I st \<Longrightarrow> I n \<Longrightarrow> memo_all I (remember n st)"
  by (simp add: memo_all_def remember_def)

lemma memo_all_init: "memo_all I init_state"
  by (simp add: memo_all_def init_state_def)

text \<open>The three ways a call of \<open>explore\<close> ends.\<close>

lemma explore_cases:
  obtains (hit) node where "memo st c = Some node" "explore svc m c d st = (node, st)"
  | (leaf) st1 where "memo st c = None"
      "is_foundational svc c \<noteq> Parsed False \<or> m \<le> d
         \<or> (\<forall>ps. list_prerequisites svc c \<noteq> Parsed ps)"
      "st1 = ask (IsFoundational c) st \<or>
       (is_foundational svc c = Parsed False \<and> \<not> m \<le> d
        \<and> st1 = ask (ListPrerequisites c) (ask (IsFoundational c) st))"
      "explore svc m c d st = (foundation_leaf c d, remember (foundation_leaf c d) st1)"
  | (inner) ps nodes st3 where "memo st c = None" "is_foundational svc c = Parsed False"
      "\<not> m \<le> d" "list_prerequisites svc c = Parsed ps"
      "explore_each svc m ps (d + 1) (ask (ListPrerequisites c) (ask (IsFoundational c) st))
         = (nodes, st3)"
      "explore svc m c d st =
         (KnowledgeNode c d False nodes PNone PNone PNone PNone,
          remember (KnowledgeNode c d False nodes PNone PNone PNone PNone) st3)"
proof (cases "memo st c")
  case (Some node)
  then show ?thesis using hit by (simp add: explore.simps)
next
  case None
  let ?st1 = "ask (IsFoundational c) st"
  let ?st2 = "ask (ListPrerequisites c) ?st1"
  show ?thesis
  proof (cases "is_foundational svc c = Parsed False")
    case False
    then have "explore svc m c d st = (foundation_leaf c d, remember (foundation_leaf c d) ?st1)"
      using None by (auto simp: explore.simps Let_def split: reply.splits bool.splits)
    then show ?thesis using leaf None False by blast
  next
    case asked_no: True
    show ?thesis
    proof (cases "m \<le> d")
      case True
      then have "explore svc m c d st
          = (foundation_leaf c d, remember (foundation_leaf c d) ?st1)"
        using None asked_no by (simp add: explore.simps Let_def)
      then show ?thesis using leaf None True by blast
    next
      case False
      show ?thesis
      proof (cases "list_prerequisites svc c")
        case (Parsed ps)
        obtain nodes st3 where e: "explore_each svc m ps (d + 1) ?st2 = (nodes, st3)"
          by (cases "explore_each svc m ps (d + 1) ?st2") blast
        have "explore svc m c d st =
         (KnowledgeNode c d False nodes PNone PNone PNone PNone,
          remember (KnowledgeNode c d False nodes PNone PNone PNone PNone) st3)"
          using None asked_no False Parsed e by (simp add: explore.simps Let_def)
        then show ?thesis using inner None asked_no False Parsed e by blast
      next
        case Raises
        then have "explore svc m c d st
          = (foundation_leaf c d, remember (foundation_leaf c d) ?st2)"
          using None asked_no False by (simp add: explore.simps Let_def)
        then show ?thesis
          using leaf [of ?st2] None asked_no False Raises by simp
      next
        case Unparseable
        then have "explore svc m c d st
          = (foundation_leaf c d, remember (foundation_leaf c d) ?st2)"
          using None asked_no False by (simp add: explore.simps Let_def)
        then show ?thesis
          using leaf [of ?st2] None asked_no False Unparseable by simp
      qed
    qed
  qed
qed

text \<open>
  A property of trees that holds of every leaf and of every inner node the explorer can
  build holds of every node it returns and of every node in the memo.  \<open>G\<close> is what is
  known of the depth.
\<close>

lemma explore_invariant:
  assumes leaf: "\<And>c d. G d \<Longrightarrow>
        is_foundational svc c \<noteq> Parsed False \<or> m \<le> d
          \<or> (\<forall>ps. list_prerequisites svc c \<noteq> Parsed ps)
        \<Longrightarrow> I (foundation_leaf c d)"
    and inner: "\<And>c d nodes. G d \<Longrightarrow> \<not> m \<le> d \<Longrightarrow> is_foundational svc c = Parsed False \<Longrightarrow>
        list_prerequisites svc c = Parsed (map concept nodes) \<Longrightarrow> list_all I nodes \<Longrightarrow>
        I (KnowledgeNode c d False nodes PNone PNone PNone PNone)"
    and step: "\<And>d. G d \<Longrightarrow> \<not> m \<le> d \<Longrightarrow> G (d + 1)"
  shows "G d \<Longrightarrow> memo_all I st \<Longrightarrow> explore svc m c d st = (n, st') \<Longrightarrow>
           concept n = c \<and> I n \<and> memo_all I st'"
    and "G d \<Longrightarrow> memo_all I st \<Longrightarrow> explore_each svc m cs d st = (ns, st') \<Longrightarrow>
           map concept ns = cs \<and> list_all I ns \<and> memo_all I st'"
  using assms
proof (induction svc m c d st and svc m cs d st arbitrary: n st' and ns st'
       rule: explore_explore_each.induct)
  case (1 svc m c d st)
  show ?case
  proof (cases rule: explore_cases [of st c svc m d])
    case (hit node)
    then show ?thesis
      using "1.prems"(2,3) by (auto simp: memo_all_def)
  next
    case (leaf st1)
    have "I (foundation_leaf c d)"
      using "1.prems"(4) [OF "1.prems"(1) leaf(2)] .
    moreover have "memo_all I st1"
      using leaf(3) "1.prems"(2) by auto
    ultimately show ?thesis
      using leaf(4) "1.prems"(3) by (auto intro: memo_all_remember)
  next
    case (inner ps nodes st3)
    have "map concept nodes = ps \<and> list_all I nodes \<and> memo_all I st3"
    proof (rule "1.IH" [OF inner(1) refl inner(2) refl inner(3) refl inner(4) _ _ inner(5)])
      show "G (d + 1)" using "1.prems"(6) [OF "1.prems"(1) inner(3)] .
      show "memo_all I (ask (ListPrerequisites c) (ask (IsFoundational c) st))"
        using "1.prems"(2) by simp
    qed (fact "1.prems"(4) "1.prems"(5) "1.prems"(6))+
    moreover from this have "I (KnowledgeNode c d False nodes PNone PNone PNone PNone)"
      using "1.prems"(5) [OF "1.prems"(1) inner(3) inner(2)] inner(4) by simp
    ultimately show ?thesis
      using inner(6) "1.prems"(3) by (auto intro: memo_all_remember)
  qed
next
  case (2 svc m d st)
  then show ?case by simp
next
  case (3 svc m p ps d st)
  obtain node st1 where e1: "explore svc m p d st = (node, st1)"
    by (cases "explore svc m p d st") blast
  obtain nodes st2 where e2: "explore_each svc m ps d st1 = (nodes, st2)"
    by (cases "explore_each svc m ps d st1") blast
  have r: "ns = node # nodes" "st' = st2"
    using "3.prems"(3) e1 e2 by simp_all
  have a: "concept node = p \<and> I node \<and> memo_all I st1"
    by (rule "3.IH"(1) [OF "3.prems"(1) "3.prems"(2) e1])
       (fact "3.prems"(4) "3.prems"(5) "3.prems"(6))+
  then have "memo_all I st1" by simp
  have b: "map concept nodes = ps \<and> list_all I nodes \<and> memo_all I st2"
    by (rule "3.IH"(2) [OF e1 [symmetric] "3.prems"(1) \<open>memo_all I st1\<close> e2])
       (fact "3.prems"(4) "3.prems"(5) "3.prems"(6))+
  show ?case using a b r by simp
qed

lemma explore_run_every_node:
  assumes leaf: "\<And>c d. G d \<Longrightarrow>
        is_foundational svc c \<noteq> Parsed False \<or> m \<le> d
          \<or> (\<forall>ps. list_prerequisites svc c \<noteq> Parsed ps)
        \<Longrightarrow> P (foundation_leaf c d)"
    and inner: "\<And>c d nodes. G d \<Longrightarrow> \<not> m \<le> d \<Longrightarrow> is_foundational svc c = Parsed False \<Longrightarrow>
        list_prerequisites svc c = Parsed (map concept nodes) \<Longrightarrow>
        P (KnowledgeNode c d False nodes PNone PNone PNone PNone)"
    and step: "\<And>d. G d \<Longrightarrow> \<not> m \<le> d \<Longrightarrow> G (d + 1)"
    and start: "G 0"
  shows "concept (fst (explore_run svc m c)) = c \<and> every_node P (fst (explore_run svc m c))"
proof -
  obtain n st' where e: "explore svc m c 0 init_state = (n, st')"
    by (cases "explore svc m c 0 init_state") blast
  have "concept n = c \<and> every_node P n \<and> memo_all (every_node P) st'"
  proof (rule explore_invariant(1)
      [where G = G and I = "every_node P", OF _ _ _ start memo_all_init e])
    show "every_node P (foundation_leaf c d)" if "G d"
      "is_foundational svc c \<noteq> Parsed False \<or> m \<le> d
         \<or> (\<forall>ps. list_prerequisites svc c \<noteq> Parsed ps)"
      for c d
      using leaf [OF that] by (simp add: foundation_leaf_def)
    show "every_node P (KnowledgeNode c d False nodes PNone PNone PNone PNone)"
      if "G d" "\<not> m \<le> d" "is_foundational svc c = Parsed False"
        "list_prerequisites svc c = Parsed (map concept nodes)" "list_all (every_node P) nodes"
      for c d nodes
      using inner [OF that(1-4)] that(5) by simp
    show "G (d + 1)" if "G d" "\<not> m \<le> d" for d
      using step [OF that] .
  qed
  then show ?thesis
    by (simp add: explore_run_def e)
qed

text \<open>The run on the example service.\<close>

lemma study_run:
  "fst (explore_run study_service 2 ''X'') = study_tree"
  "requests (snd (explore_run study_service 2 ''X'')) =
     [IsFoundational ''X'', ListPrerequisites ''X'', IsFoundational ''A'',
      IsFoundational ''B'', ListPrerequisites ''B'', IsFoundational ''D'',
      IsFoundational ''C'']"
  by (simp_all add: explore_run_def explore.simps study_service_def study_tree_def
        init_state_def ask_def remember_def foundation_leaf_def Let_def)

text \<open>
  C2.  In the tree of an exploration run with a bound that is not negative, every node's
  depth is at most the bound, and every node at the bound is foundational and has no
  prerequisites.
\<close>

theorem explore_depth_bound:
  assumes "0 \<le> m" and "n \<in> set (all_nodes (fst (explore_run svc m c)))"
  shows "depth n \<le> m \<and> (depth n = m \<longrightarrow> is_foundation n \<and> prerequisites n = [])"
proof -
  have "concept (fst (explore_run svc m c)) = c
        \<and> every_node (depth_capped m) (fst (explore_run svc m c))"
    by (rule explore_run_every_node [where G = "\<lambda>d. d \<le> m"])
       (use assms(1) in \<open>auto simp: depth_capped_def foundation_leaf_def\<close>)
  then show ?thesis
    using assms(2) by (simp add: every_node_all_nodes depth_capped_def)
qed

theorem explore_depth_bound_witness:
  "(0::int) \<le> 2
   \<and> KnowledgeNode ''D'' 2 True [] PNone PNone PNone PNone
       \<in> set (all_nodes (fst (explore_run study_service 2 ''X'')))
   \<and> depth (KnowledgeNode ''D'' 2 True [] PNone PNone PNone PNone) \<le> 2
   \<and> prerequisites (KnowledgeNode ''D'' 2 True [] PNone PNone PNone PNone) = []"
proof -
  have h: "KnowledgeNode ''D'' 2 True [] PNone PNone PNone PNone
             \<in> set (all_nodes (fst (explore_run study_service 2 ''X'')))"
    by (simp add: study_run study_tree_def)
  have z: "(0::int) \<le> 2" by simp
  show ?thesis
    using h explore_depth_bound [OF z h] by simp
qed

lemma grows_refl [simp]: "grows st st"
  by (simp add: grows_def)











lemma every_node_reloaded:
  "every_node foundation_is_leaf (reloaded n) = every_node foundation_is_leaf n"
  by (induction n) (auto simp: foundation_is_leaf_def list_all_iff)

lemma foundation_is_leaf_node:
  "foundation_is_leaf (KnowledgeNode c k f ps eqs defs vis nar) = (f \<longrightarrow> ps = [])"
  by (simp add: foundation_is_leaf_def)

lemma design_prerequisites_leaves:
  assumes "\<And>p parent cache node' cache' outcome.
             p \<in> set ps \<Longrightarrow>
             three_d_design_node self p parent cache = ((node', cache'), outcome)
               \<Longrightarrow> every_node foundation_is_leaf p \<Longrightarrow> every_node foundation_is_leaf node'"
    and "design_prerequisites self ps spec_e cache = ((ps', cache'), raised)"
    and "list_all (every_node foundation_is_leaf) ps"
  shows "list_all (every_node foundation_is_leaf) ps'"
  using assms
proof (induction ps arbitrary: cache ps' cache' raised)
  case Nil
  then show ?case by simp
next
  case (Cons p rest)
  from design_prerequisites_Cons_result [OF Cons.prems(2)]
  obtain p' cache1 out1 where
    p: "three_d_design_node self p (Some spec_e) cache = ((p', cache1), out1)"
    and r: "(\<exists>e. out1 = Inl e \<and> ps' = p' # rest \<and> cache' = cache1 \<and> raised = Some e)
            \<or> (\<exists>s rest'. out1 = Inr s
                  \<and> design_prerequisites self rest spec_e cache1 = ((rest', cache'), raised)
                  \<and> ps' = p' # rest')"
    by blast
  have head: "every_node foundation_is_leaf p'"
    using Cons.prems(1) [OF _ p] Cons.prems(3) by simp
  have others: "list_all (every_node foundation_is_leaf) rest"
    using Cons.prems(3) by simp
  from r show ?case
  proof
    assume "\<exists>e. out1 = Inl e \<and> ps' = p' # rest \<and> cache' = cache1 \<and> raised = Some e"
    then show ?thesis
      using head others by auto
  next
    assume "\<exists>s rest'. out1 = Inr s
              \<and> design_prerequisites self rest spec_e cache1 = ((rest', cache'), raised)
              \<and> ps' = p' # rest'"
    then obtain rest' where
      d: "design_prerequisites self rest spec_e cache1 = ((rest', cache'), raised)"
      and ps': "ps' = p' # rest'"
      by blast
    have "list_all (every_node foundation_is_leaf) rest'"
    proof (rule Cons.IH [OF _ d others])
      show "every_node foundation_is_leaf node'"
        if "q \<in> set rest"
          "three_d_design_node self q parent cache = ((node', cache'), outcome)"
          "every_node foundation_is_leaf q" for q parent cache node' cache' outcome
        using Cons.prems(1) [OF _ that(2) that(3)] that(1) by simp
    qed
    then show ?thesis
      using head ps' by simp
  qed
qed

lemma three_d_design_node_leaves:
  "three_d_design_node self node parent cache = ((node', cache'), outcome)
     \<Longrightarrow> every_node foundation_is_leaf node \<Longrightarrow> every_node foundation_is_leaf node'"
proof (induction node arbitrary: parent cache node' cache' outcome)
  case (KnowledgeNode c k f ps eqs defs vis nar)
  from three_d_design_node_result [OF KnowledgeNode.prems(1)]
  show ?case
  proof
    assume "node' = KnowledgeNode c k f ps eqs defs vis nar \<and> cache' = cache
            \<and> (\<exists>e. outcome = Inl e)"
    then show ?thesis
      using KnowledgeNode.prems(2) by simp
  next
    assume "\<exists>vis' ps' spec raised.
            update_visual_spec vis (spec_to_dict self spec) = Inr vis'
            \<and> design_prerequisites self ps spec (cache(c \<mapsto> spec)) = ((ps', cache'), raised)
            \<and> node' = KnowledgeNode c k f ps' eqs defs vis' nar
            \<and> outcome = (case raised of Some e \<Rightarrow> Inl e | None \<Rightarrow> Inr spec)"
    then obtain vis' ps' spec raised where
      d: "design_prerequisites self ps spec (cache(c \<mapsto> spec)) = ((ps', cache'), raised)"
      and n: "node' = KnowledgeNode c k f ps' eqs defs vis' nar"
      by blast
    have all: "list_all (every_node foundation_is_leaf) ps"
      using KnowledgeNode.prems(2) by simp
    have fl: "f \<longrightarrow> ps = []"
      using KnowledgeNode.prems(2) by (simp add: foundation_is_leaf_node)
    have "list_all (every_node foundation_is_leaf) ps'"
      by (rule design_prerequisites_leaves [OF _ d all]) (rule KnowledgeNode.IH)
    moreover have "f \<longrightarrow> ps' = []"
      using fl d by auto
    ultimately show ?thesis
      using n by (simp add: foundation_is_leaf_node)
  qed
qed

text \<open>
  C7.  In the tree of an exploration run every foundational node has no prerequisites;
  the visual design stage keeps this property of a tree, whether it returns or raises
  on the way; and a tree with this property, serialized and loaded again, is a tree with
  this property.
\<close>

theorem foundation_nodes_are_leaves:
  "every_node foundation_is_leaf (fst (explore_run svc m c))
   \<and> (every_node foundation_is_leaf T \<longrightarrow>
        (\<exists>T'. dict_to_node (serialize_tree T 0) = Inr T' \<and> every_node foundation_is_leaf T'))
   \<and> (every_node foundation_is_leaf T
        \<and> three_d_design_node self T parent cache = ((Td, cache'), outcome)
        \<longrightarrow> every_node foundation_is_leaf Td)"
proof -
  have "concept (fst (explore_run svc m c)) = c
        \<and> every_node foundation_is_leaf (fst (explore_run svc m c))"
    by (rule explore_run_every_node [where G = "\<lambda>d. True"])
       (auto simp: foundation_is_leaf_def foundation_leaf_def)
  then show ?thesis
    using three_d_design_node_leaves [of self T parent cache Td cache' outcome]
    by (simp add: dict_to_node_serialize_tree every_node_reloaded)
qed

theorem foundation_nodes_are_leaves_witness:
  "every_node foundation_is_leaf study_tree
   \<and> dict_to_node (serialize_tree study_tree 0) = Inr study_tree
   \<and> every_node foundation_is_leaf plain_pair
   \<and> every_node foundation_is_leaf
        (fst (fst (three_d_design_node garbled_designer plain_pair None Map.empty)))
   \<and> (\<exists>spec. snd (three_d_design_node garbled_designer plain_pair None Map.empty) = Inr spec)"
proof -
  have "every_node foundation_is_leaf (fst (explore_run study_service 2 ''X''))"
    using foundation_nodes_are_leaves
      [where svc = study_service and m = 2 and c = "''X''" and T = study_tree
         and self = garbled_designer and parent = None and cache = Map.empty
         and Td = study_tree and outcome = "Inr []" and cache' = Map.empty]
    by simp
  then have a: "every_node foundation_is_leaf study_tree"
    by (simp add: study_run)
  have "enrichments_kept study_tree"
    by (simp add: study_tree_def)
  then have b: "dict_to_node (serialize_tree study_tree 0) = Inr study_tree"
    by (simp add: dict_to_node_serialize_tree reloaded_id)
  obtain Td cache' outcome where
    ret: "three_d_design_node garbled_designer plain_pair None Map.empty
            = ((Td, cache'), outcome)"
    by (metis surj_pair)
  have ok: "\<exists>spec. snd (three_d_design_node garbled_designer plain_pair None Map.empty)
              = Inr spec"
    by (simp add: garbled_designer_def plain_pair_def user_prompt_def Let_def sliceable_def
          dict_get_default_def update_visual_spec_def)
  have p: "every_node foundation_is_leaf plain_pair"
    by (simp add: plain_pair_def foundation_is_leaf_node)
  have "every_node foundation_is_leaf Td"
    using foundation_nodes_are_leaves
      [where svc = study_service and m = 2 and c = "''X''" and T = plain_pair
         and self = garbled_designer and parent = None and cache = Map.empty
         and Td = Td and outcome = outcome and cache' = cache']
      p ret
    by simp
  then show ?thesis
    using a b p ret ok by simp
qed

end
